theory Spec2Isabelle
  imports Complex_Main
begin

section \<open>The symbol table (src/v2/symbol\_table.js)\<close>

text \<open>
  A \<open>SymbolTable\<close> object has two fields: \<open>symbols\<close>, a JavaScript \<open>Map\<close> created by
  the constructor, and \<open>parent\<close>, a reference to another table or \<open>null\<close>. Tables are
  objects with identity, so they live in a store: a list of tables, the address of a table
  being its index. The constructor allocates at the end of the store. A stored value is
  whatever \<open>set\<close> was given (\<open>@param {any} value\<close>): JavaScript's \<open>null\<close> or some other
  value.
\<close>

datatype 'v jsval = Null | Val 'v

record 'v SymbolTable =
  symbols :: "string \<rightharpoonup> 'v jsval"
  parent :: "nat option"

type_synonym 'v store = "'v SymbolTable list"

text \<open>\<open>constructor(parent=null)\<close>: a fresh empty map and the given parent.\<close>

definition SymbolTable_new :: "'v store \<Rightarrow> nat option \<Rightarrow> nat \<times> 'v store" where
  "SymbolTable_new h p = (length h, h @ [\<lparr>symbols = Map.empty, parent = p\<rparr>])"

text \<open>\<open>doesExist(var_name) { return this.symbols.has(var_name); }\<close>\<close>

definition doesExist :: "'v store \<Rightarrow> nat \<Rightarrow> string \<Rightarrow> bool" where
  "doesExist h a var_name = (symbols (h ! a) var_name \<noteq> None)"

text \<open>
  \<open>get(name)\<close>: the local value, or \<open>null\<close> when the map has no entry; when that is
  \<open>null\<close> and there is a parent, the parent's answer. The recursion follows the parent
  references of the store, so the function is partial: no result (\<open>None\<close>) stands for a
  lookup that never returns, and for an address outside the store, which no JavaScript
  reference can be.
\<close>

partial_function (option) SymbolTable_get :: "'v store \<Rightarrow> nat \<Rightarrow> string \<Rightarrow> 'v jsval option" where
  "SymbolTable_get h a name =
     (if a < length h then
        (let value = (case symbols (h ! a) name of Some v \<Rightarrow> v | None \<Rightarrow> Null) in
         if value = Null \<and> parent (h ! a) \<noteq> None
         then SymbolTable_get h (the (parent (h ! a))) name
         else Some value)
      else None)"

text \<open>\<open>set(name, value) { this.symbols.set(name, value); }\<close>\<close>

definition SymbolTable_set :: "'v store \<Rightarrow> nat \<Rightarrow> string \<Rightarrow> 'v jsval \<Rightarrow> 'v store" where
  "SymbolTable_set h a name v = h[a := (h ! a)\<lparr>symbols := (symbols (h ! a))(name \<mapsto> v)\<rparr>]"

text \<open>\<open>remove(name) { this.symbols.delete(name); }\<close>\<close>

definition SymbolTable_remove :: "'v store \<Rightarrow> nat \<Rightarrow> string \<Rightarrow> 'v store" where
  "SymbolTable_remove h a name = h[a := (h ! a)\<lparr>symbols := (symbols (h ! a))(name := None)\<rparr>]"

text \<open>
  Stores built by the constructor: a parent is an existing table, allocated before its
  child. \<open>ancestor h a b\<close>: table \<open>b\<close> is reached from \<open>a\<close> by one or more parent steps.
\<close>

definition wf_store :: "'v store \<Rightarrow> bool" where
  "wf_store h = (\<forall>a < length h. case parent (h ! a) of None \<Rightarrow> True | Some p \<Rightarrow> p < a)"

inductive ancestor :: "'v store \<Rightarrow> nat \<Rightarrow> nat \<Rightarrow> bool" for h :: "'v store" where
  parent_step: "a < length h \<Longrightarrow> parent (h ! a) = Some p \<Longrightarrow> ancestor h a p"
| parent_trans: "a < length h \<Longrightarrow> parent (h ! a) = Some p \<Longrightarrow> ancestor h p b \<Longrightarrow> ancestor h a b"


section \<open>The parsers (src/unnamed/part\_001 and src/unnamed/part\_002)\<close>

text \<open>
  Two versions of \<open>parser.js\<close> are in the sources: part\_001, the earlier one, and
  part\_002, the later one (suffix \<open>_v1\<close> and \<open>_v2\<close> below). Both work on the array of
  tokens with a cursor. Source positions only feed the error messages and are left out; an
  error is the exception the source throws: \<open>InvalidSyntaxError\<close> with its message, or the
  \<open>TypeError\<close> JavaScript raises when \<open>this.current_token\<close> is \<open>null\<close> and a property
  of it is read. \<open>OutOfFuel\<close> is not an outcome of the source: it marks a run of the
  model that was given too small a recursion bound.
\<close>

text \<open>
  Modelled from the spec: \<open>tokens.js\<close> (\<open>TokenType\<close>, class \<open>Token\<close> and its method
  \<open>matches\<close>) is not among the sources. The kinds are those the two parsers name; a
  token is its kind and its literal value (spec, section 3), and \<open>matches(type, value)\<close>
  compares both.
\<close>

datatype TokenType =
    NUMBER | STRING | IDENTIFIER | KEYWORD
  | PLUS | MINUS | MULTIPLY | DIVIDE | POWER | MODULO | INC | DEC
  | LPAREN | RPAREN | LSQUARE | RSQUARE | LBRACK | RBRACK
  | EQUALS | DOUBLE_EQUALS | NOT_EQUAL | LT | GT | LTE | GTE | ELSE_ASSIGN
  | COLON | SEMICOLON | COMMA | NEWLINE | EOF

datatype Token = Token (tok_type: TokenType) (tok_value: string)

definition matches :: "Token \<Rightarrow> TokenType \<Rightarrow> string \<Rightarrow> bool" where
  "matches t ty v = (tok_type t = ty \<and> tok_value t = v)"

text \<open>
  Modelled from the spec: \<open>nodes.js\<close> is not among the sources. These are the node
  classes that the modelled methods build, with the constructor arguments the parsers pass,
  in their order and without the positions. The second argument of \<open>StringNode\<close> is optional in the
  source (\<open>None\<close>: not given). \<open>CustomNode\<close> stands for a node of any other class.
\<close>

datatype Node =
    NumberNode Token
  | StringNode Token "bool option"
  | PlusNode Node
  | MinusNode Node
  | AddNode Node Node
  | SubtractNode Node Node
  | MultiplyNode Node Node
  | DivideNode Node Node
  | PowerNode Node Node
  | ModuloNode Node Node
  | VarAssignNode Token Node
  | VarAccessNode Token
  | VarModifyNode Token Node
  | DefineNode Token Node
  | DeleteNode Node
  | AndNode Node Node
  | OrNode Node Node
  | NotNode Node
  | EqualsNode Node Node
  | LessThanNode Node Node
  | GreaterThanNode Node Node
  | LessThanOrEqualNode Node Node
  | GreaterThanOrEqualNode Node Node
  | NotEqualsNode Node Node
  | ElseAssignmentNode Node Node
  | ListNode "Node list"
  | DictionnaryElementNode Node Node
  | DictionnaryNode "Node list"
  | CustomNode string "Node list"

datatype error = InvalidSyntaxError string | TypeError | OutOfFuel

record Parser =
  tokens :: "Token list"
  idx :: nat
  advancement_count :: nat
  backup_index :: nat
  current_token :: "Token option"

type_synonym res = "error + Node \<times> Parser"

text \<open>
  \<open>set_token\<close>, \<open>advance\<close> and the constructor, which starts at \<open>idx = -1\<close> and advances
  once: the cursor of the model starts at 0 with one advancement counted.
\<close>

definition set_token :: "Parser \<Rightarrow> Parser" where
  "set_token p =
     p\<lparr>current_token := (if idx p < length (tokens p) then Some (tokens p ! idx p) else None)\<rparr>"

definition advance :: "Parser \<Rightarrow> Parser" where
  "advance p = set_token (p\<lparr>idx := idx p + 1, advancement_count := advancement_count p + 1\<rparr>)"

definition Parser_new :: "Token list \<Rightarrow> Parser" where
  "Parser_new toks =
     set_token \<lparr>tokens = toks, idx = 0, advancement_count = 1, backup_index = 0,
                current_token = None\<rparr>"

text \<open>The keys of \<open>CONSTANTS\<close> in symbol\_table.js, in the order of the object literal.\<close>

definition CONSTANTS_keys :: "string list" where
  "CONSTANTS_keys = [''none'', ''null'', ''yes'', ''true'', ''no'', ''false'']"

text \<open>
  Modelled from the spec: \<open>miscellaneous.js\<close> (\<open>is_in\<close>) is not among the sources; it is
  used as the membership test of a value in an array.
\<close>

definition is_in :: "'a \<Rightarrow> 'a list \<Rightarrow> bool" where
  "is_in x xs = (x \<in> set xs)"

subsection \<open>The first parser (part\_001)\<close>

text \<open>
  Each method is modelled with the methods it calls as parameters, itself included where
  it is recursive; \<open>parse_v1\<close> below ties them together. \<open>expr()\<close>: the \<open>var\<close>
  declaration, or a comparison followed by at most one \<open>and\<close>/\<open>or\<close>.
\<close>

definition expr_v1 :: "(Parser \<Rightarrow> res) \<Rightarrow> (Parser \<Rightarrow> res) \<Rightarrow> Parser \<Rightarrow> res" where
  "expr_v1 expr comp_expr p =
     (case current_token p of None \<Rightarrow> Inl TypeError | Some t0 \<Rightarrow>
      if matches t0 KEYWORD ''var'' then
        (let p1 = advance p in
         case current_token p1 of None \<Rightarrow> Inl TypeError | Some var_name_tok \<Rightarrow>
         if tok_type var_name_tok \<noteq> IDENTIFIER then Inl (InvalidSyntaxError ''Expected identifier'')
         else
           (let p2 = advance p1 in
            case current_token p2 of None \<Rightarrow> Inl TypeError | Some t2 \<Rightarrow>
            if tok_type t2 \<noteq> EQUALS then Inl (InvalidSyntaxError ''Expected equals'')
            else
              (case expr (advance p2) of Inl e \<Rightarrow> Inl e
               | Inr (value_node, p3) \<Rightarrow> Inr (VarAssignNode var_name_tok value_node, p3))))
      else
        (case comp_expr p of Inl e \<Rightarrow> Inl e | Inr (result, p1) \<Rightarrow>
         (case current_token p1 of None \<Rightarrow> Inr (result, p1) | Some t \<Rightarrow>
          if matches t KEYWORD ''and'' then
            (case comp_expr (advance p1) of Inl e \<Rightarrow> Inl e
             | Inr (node, p2) \<Rightarrow> Inr (AndNode result node, p2))
          else if matches t KEYWORD ''or'' then
            (case comp_expr (advance p1) of Inl e \<Rightarrow> Inl e
             | Inr (node, p2) \<Rightarrow> Inr (OrNode result node, p2))
          else Inr (result, p1))))"

text \<open>The comparison operators of \<open>comp_expr()\<close> and the node each one builds.\<close>

fun comparison_node :: "TokenType \<Rightarrow> (Node \<Rightarrow> Node \<Rightarrow> Node) option" where
  "comparison_node DOUBLE_EQUALS = Some EqualsNode"
| "comparison_node LT = Some LessThanNode"
| "comparison_node GT = Some GreaterThanNode"
| "comparison_node LTE = Some LessThanOrEqualNode"
| "comparison_node GTE = Some GreaterThanOrEqualNode"
| "comparison_node NOT_EQUAL = Some NotEqualsNode"
| "comparison_node ELSE_ASSIGN = Some ElseAssignmentNode"
| "comparison_node _ = None"

definition comp_expr_v1 :: "(Parser \<Rightarrow> res) \<Rightarrow> (Parser \<Rightarrow> res) \<Rightarrow> Parser \<Rightarrow> res" where
  "comp_expr_v1 comp_expr arith_expr p =
     (case current_token p of None \<Rightarrow> Inl TypeError | Some t0 \<Rightarrow>
      if matches t0 KEYWORD ''not'' then
        (case comp_expr (advance p) of Inl e \<Rightarrow> Inl e | Inr (node, p1) \<Rightarrow> Inr (NotNode node, p1))
      else
        (case arith_expr p of Inl e \<Rightarrow> Inl e | Inr (node_a, p1) \<Rightarrow>
         (case current_token p1 of None \<Rightarrow> Inl TypeError | Some t \<Rightarrow>
          (case comparison_node (tok_type t) of
             None \<Rightarrow> Inr (node_a, p1)
           | Some mk \<Rightarrow>
               (case arith_expr (advance p1) of Inl e \<Rightarrow> Inl e
                | Inr (node_b, p2) \<Rightarrow> Inr (mk node_a node_b, p2))))))"

text \<open>
  \<open>arith_expr()\<close>: a term, then the loop over \<open>+\<close> and \<open>-\<close>. The loop is bounded by a
  counter, since how far \<open>term\<close> moves the cursor is up to \<open>term\<close>.
\<close>

primrec arith_loop_v1 :: "nat \<Rightarrow> (Parser \<Rightarrow> res) \<Rightarrow> Node \<Rightarrow> Parser \<Rightarrow> res" where
  "arith_loop_v1 0 term result p = Inl OutOfFuel"
| "arith_loop_v1 (Suc n) term result p =
     (case current_token p of None \<Rightarrow> Inr (result, p) | Some t \<Rightarrow>
      if tok_type t = PLUS then
        (case term (advance p) of Inl e \<Rightarrow> Inl e
         | Inr (node, p1) \<Rightarrow> arith_loop_v1 n term (AddNode result node) p1)
      else if tok_type t = MINUS then
        (case term (advance p) of Inl e \<Rightarrow> Inl e
         | Inr (node, p1) \<Rightarrow> arith_loop_v1 n term (SubtractNode result node) p1)
      else Inr (result, p))"

definition arith_expr_v1 :: "nat \<Rightarrow> (Parser \<Rightarrow> res) \<Rightarrow> Parser \<Rightarrow> res" where
  "arith_expr_v1 n term p =
     (case term p of Inl e \<Rightarrow> Inl e | Inr (result, p1) \<Rightarrow> arith_loop_v1 n term result p1)"

text \<open>
  \<open>term()\<close>: every pass of the loop builds its node from \<open>node_a\<close>, the first factor, and
  overwrites \<open>result\<close>; \<open>result ? result : node_a\<close> is returned.
\<close>

fun term_node :: "TokenType \<Rightarrow> (Node \<Rightarrow> Node \<Rightarrow> Node) option" where
  "term_node MULTIPLY = Some MultiplyNode"
| "term_node DIVIDE = Some DivideNode"
| "term_node POWER = Some PowerNode"
| "term_node MODULO = Some ModuloNode"
| "term_node _ = None"

primrec term_loop_v1 :: "nat \<Rightarrow> (Parser \<Rightarrow> res) \<Rightarrow> Node \<Rightarrow> Node option \<Rightarrow> Parser \<Rightarrow> res" where
  "term_loop_v1 0 factor node_a result p = Inl OutOfFuel"
| "term_loop_v1 (Suc n) factor node_a result p =
     (case (case current_token p of None \<Rightarrow> None | Some t \<Rightarrow> term_node (tok_type t)) of
        None \<Rightarrow> Inr (case result of Some r \<Rightarrow> r | None \<Rightarrow> node_a, p)
      | Some mk \<Rightarrow>
          (case factor (advance p) of Inl e \<Rightarrow> Inl e
           | Inr (node, p1) \<Rightarrow> term_loop_v1 n factor node_a (Some (mk node_a node)) p1))"

definition term_v1 :: "nat \<Rightarrow> (Parser \<Rightarrow> res) \<Rightarrow> Parser \<Rightarrow> res" where
  "term_v1 n factor p =
     (case factor p of Inl e \<Rightarrow> Inl e | Inr (node_a, p1) \<Rightarrow> term_loop_v1 n factor node_a None p1)"

text \<open>
  The messages \<open>Expected ')'\<close>, \<open>Expected ',' or '}'\<close> and \<open>Expected a colon (':')\<close>,
  with their quote characters.
\<close>

definition Expected_rparen :: string where
  "Expected_rparen = ''Expected '' @ [CHR 0x27] @ '')'' @ [CHR 0x27]"

definition Expected_colon :: string where
  "Expected_colon = ''Expected a colon ('' @ [CHR 0x27] @ '':'' @ [CHR 0x27] @ '')''"

definition Expected_comma_or_rbrack :: string where
  "Expected_comma_or_rbrack =
     ''Expected '' @ [CHR 0x27] @ '','' @ [CHR 0x27] @ '' or '' @ [CHR 0x27] @ ''}'' @ [CHR 0x27]"

text \<open>
  \<open>factor()\<close>. The methods for an indexed list access (after an identifier followed by
  \<open>[\<close>), a list literal and the \<open>if\<close>, \<open>for\<close> and \<open>while\<close> expressions are parameters,
  collected in a record.
\<close>

record compound_v1 =
  list_access :: "Token \<Rightarrow> Parser \<Rightarrow> res"
  list_expr :: "Parser \<Rightarrow> res"
  if_expr :: "Parser \<Rightarrow> res"
  for_expr :: "Parser \<Rightarrow> res"
  while_expr :: "Parser \<Rightarrow> res"

definition factor_v1 ::
  "compound_v1 \<Rightarrow> (Parser \<Rightarrow> res) \<Rightarrow> (Parser \<Rightarrow> res) \<Rightarrow> Parser \<Rightarrow> res" where
  "factor_v1 c expr factor p =
     (case current_token p of None \<Rightarrow> Inl TypeError | Some token \<Rightarrow>
      if tok_type token = LPAREN then
        (case expr (advance p) of Inl e \<Rightarrow> Inl e | Inr (result, p1) \<Rightarrow>
         (case current_token p1 of None \<Rightarrow> Inl TypeError | Some t \<Rightarrow>
          if tok_type t \<noteq> RPAREN then Inl (InvalidSyntaxError Expected_rparen)
          else Inr (result, advance p1)))
      else if tok_type token = NUMBER then Inr (NumberNode token, advance p)
      else if tok_type token = STRING then Inr (StringNode token None, advance p)
      else if tok_type token = PLUS then
        (case factor (advance p) of Inl e \<Rightarrow> Inl e | Inr (node, p1) \<Rightarrow> Inr (PlusNode node, p1))
      else if tok_type token = MINUS then
        (case factor (advance p) of Inl e \<Rightarrow> Inl e | Inr (node, p1) \<Rightarrow> Inr (MinusNode node, p1))
      else if tok_type token = IDENTIFIER then
        (let var_name_tok = token; p1 = advance p in
         case current_token p1 of None \<Rightarrow> Inl TypeError | Some t \<Rightarrow>
         if tok_type t = EQUALS then
           (if is_in (tok_value var_name_tok) CONSTANTS_keys
            then Inl (InvalidSyntaxError ''Invalid variable name for assigment.'')
            else
              (case expr (advance p1) of Inl e \<Rightarrow> Inl e
               | Inr (value_node, p2) \<Rightarrow> Inr (VarModifyNode var_name_tok value_node, p2)))
         else if tok_type t = LSQUARE then list_access c var_name_tok p1
         else Inr (VarAccessNode token, p1))
      else if tok_type token = LSQUARE then list_expr c p
      else if matches token KEYWORD ''if'' then if_expr c p
      else if matches token KEYWORD ''for'' then for_expr c p
      else if matches token KEYWORD ''while'' then while_expr c p
      else
        (case current_token (advance p) of None \<Rightarrow> Inl TypeError
         | Some t \<Rightarrow> Inl (InvalidSyntaxError ''Unexpected node'')))"

text \<open>
  The recursion of the five methods, bounded by a counter that every call decrements.
\<close>

fun parse_expr_v1 :: "compound_v1 \<Rightarrow> nat \<Rightarrow> Parser \<Rightarrow> res"
  and parse_comp_expr_v1 :: "compound_v1 \<Rightarrow> nat \<Rightarrow> Parser \<Rightarrow> res"
  and parse_arith_expr_v1 :: "compound_v1 \<Rightarrow> nat \<Rightarrow> Parser \<Rightarrow> res"
  and parse_term_v1 :: "compound_v1 \<Rightarrow> nat \<Rightarrow> Parser \<Rightarrow> res"
  and parse_factor_v1 :: "compound_v1 \<Rightarrow> nat \<Rightarrow> Parser \<Rightarrow> res" where
  "parse_expr_v1 c 0 p = Inl OutOfFuel"
| "parse_expr_v1 c (Suc n) p = expr_v1 (parse_expr_v1 c n) (parse_comp_expr_v1 c n) p"
| "parse_comp_expr_v1 c 0 p = Inl OutOfFuel"
| "parse_comp_expr_v1 c (Suc n) p = comp_expr_v1 (parse_comp_expr_v1 c n) (parse_arith_expr_v1 c n) p"
| "parse_arith_expr_v1 c 0 p = Inl OutOfFuel"
| "parse_arith_expr_v1 c (Suc n) p = arith_expr_v1 (Suc n) (parse_term_v1 c n) p"
| "parse_term_v1 c 0 p = Inl OutOfFuel"
| "parse_term_v1 c (Suc n) p = term_v1 (Suc n) (parse_factor_v1 c n) p"
| "parse_factor_v1 c 0 p = Inl OutOfFuel"
| "parse_factor_v1 c (Suc n) p = factor_v1 c (parse_expr_v1 c n) (parse_factor_v1 c n) p"


text \<open>
  The loop \<open>while (this.current_token.type === TokenType.NEWLINE) this.advance()\<close>, which
  also counts its passes (\<open>newline_count\<close> in \<open>statements()\<close>). Running off the end of the
  tokens makes \<open>current_token\<close> \<open>null\<close>, and reading its type then raises.
\<close>

function skip_newlines :: "nat \<Rightarrow> Parser \<Rightarrow> error + nat \<times> Parser" where
  "skip_newlines k p =
     (case current_token p of None \<Rightarrow> Inl TypeError
      | Some t \<Rightarrow> if tok_type t = NEWLINE then skip_newlines (k + 1) (advance p) else Inr (k, p))"
  by pat_completeness auto
termination
  by (relation "measure (\<lambda>(k, p). (length (tokens p) - idx p)
                                   + (if current_token p = None then 0 else 1))")
     (auto simp: advance_def set_token_def)

text \<open>
  \<open>statements()\<close> with \<open>statement\<close> as parameter (in this parser \<open>statement()\<close> is
  \<open>expr()\<close>). The flag \<open>more_statements\<close> is the loop's state; the test \<open>!statement\<close> is
  left out, a node object being never falsy.
\<close>

primrec statements_loop_v1 ::
  "nat \<Rightarrow> (Parser \<Rightarrow> res) \<Rightarrow> Node list \<Rightarrow> bool \<Rightarrow> Parser \<Rightarrow> error + Node list \<times> Parser" where
  "statements_loop_v1 0 statement stmts more_statements p = Inl OutOfFuel"
| "statements_loop_v1 (Suc n) statement stmts more_statements p =
     (case skip_newlines 0 p of Inl e \<Rightarrow> Inl e | Inr (newline_count, p1) \<Rightarrow>
      (case current_token p1 of None \<Rightarrow> Inl TypeError | Some t \<Rightarrow>
       if tok_type t = EOF then Inr (stmts, p1)
       else if newline_count = 0 \<or> \<not> more_statements then Inr (stmts, p1)
       else if matches t KEYWORD ''elif'' \<or> matches t KEYWORD ''else'' \<or> matches t KEYWORD ''end''
         then statements_loop_v1 n statement stmts False p1
       else
         (case statement p1 of Inl e \<Rightarrow> Inl e
          | Inr (s, p2) \<Rightarrow> statements_loop_v1 n statement (stmts @ [s]) more_statements p2)))"

definition statements_v1 :: "nat \<Rightarrow> (Parser \<Rightarrow> res) \<Rightarrow> Parser \<Rightarrow> res" where
  "statements_v1 n statement p =
     (case skip_newlines 0 p of Inl e \<Rightarrow> Inl e | Inr (k, p1) \<Rightarrow>
      (case current_token p1 of None \<Rightarrow> Inl TypeError | Some t \<Rightarrow>
       if tok_type t = EOF then Inl (InvalidSyntaxError ''Unexpected end of file'')
       else
         (case statement p1 of Inl e \<Rightarrow> Inl e | Inr (s, p2) \<Rightarrow>
          (case statements_loop_v1 n statement [s] True p2 of Inl e \<Rightarrow> Inl e
           | Inr (stmts, p3) \<Rightarrow> Inr (ListNode stmts, p3)))))"

text \<open>
  \<open>new Parser(tokens).parse()\<close>: \<open>null\<close> for an empty token array, else the statements,
  and an error when a token other than \<open>EOF\<close> is left.
\<close>

definition parse_v1 :: "compound_v1 \<Rightarrow> nat \<Rightarrow> Token list \<Rightarrow> error + Node option" where
  "parse_v1 c n toks =
     (let p = Parser_new toks in
      case current_token p of None \<Rightarrow> Inr None | Some t0 \<Rightarrow>
      (case statements_v1 n (parse_expr_v1 c n) p of Inl e \<Rightarrow> Inl e | Inr (result, p1) \<Rightarrow>
       (case current_token p1 of None \<Rightarrow> Inr (Some result) | Some t \<Rightarrow>
        if tok_type t \<noteq> EOF then Inl (InvalidSyntaxError ''Unexpected end of parsing.'')
        else Inr (Some result))))"

subsection \<open>The second parser (part\_002)\<close>

text \<open>
  \<open>expr()\<close>: the declaration path now serves \<open>var\<close> and \<open>define\<close>, and \<open>delete\<close> is
  new; \<open>call\<close> is the method \<open>this.call()\<close>.
\<close>

definition expr_v2 ::
  "(Parser \<Rightarrow> res) \<Rightarrow> (Parser \<Rightarrow> res) \<Rightarrow> (Parser \<Rightarrow> res) \<Rightarrow> Parser \<Rightarrow> res" where
  "expr_v2 expr comp_expr call p =
     (case current_token p of None \<Rightarrow> Inl TypeError | Some t0 \<Rightarrow>
      if matches t0 KEYWORD ''var'' \<or> matches t0 KEYWORD ''define'' then
        (let is_variable = matches t0 KEYWORD ''var''; p1 = advance p in
         case current_token p1 of None \<Rightarrow> Inl TypeError | Some var_name_tok \<Rightarrow>
         if tok_type var_name_tok \<noteq> IDENTIFIER then Inl (InvalidSyntaxError ''Expected identifier'')
         else
           (let p2 = advance p1 in
            case current_token p2 of None \<Rightarrow> Inl TypeError | Some t2 \<Rightarrow>
            if tok_type t2 \<noteq> EQUALS then Inl (InvalidSyntaxError ''Expected equals'')
            else
              (case expr (advance p2) of Inl e \<Rightarrow> Inl e
               | Inr (value_node, p3) \<Rightarrow>
                   if is_variable then Inr (VarAssignNode var_name_tok value_node, p3)
                   else Inr (DefineNode var_name_tok value_node, p3))))
      else if matches t0 KEYWORD ''delete'' then
        (case call (advance p) of Inl e \<Rightarrow> Inl e
         | Inr (node_to_delete, p1) \<Rightarrow> Inr (DeleteNode node_to_delete, p1))
      else
        (case comp_expr p of Inl e \<Rightarrow> Inl e | Inr (result, p1) \<Rightarrow>
         (case current_token p1 of None \<Rightarrow> Inr (result, p1) | Some t \<Rightarrow>
          if matches t KEYWORD ''and'' then
            (case comp_expr (advance p1) of Inl e \<Rightarrow> Inl e
             | Inr (node, p2) \<Rightarrow> Inr (AndNode result node, p2))
          else if matches t KEYWORD ''or'' then
            (case comp_expr (advance p1) of Inl e \<Rightarrow> Inl e
             | Inr (node, p2) \<Rightarrow> Inr (OrNode result node, p2))
          else Inr (result, p1))))"

text \<open>
  \<open>atom()\<close>. The methods for a list literal and for the \<open>if\<close>, \<open>for\<close>, \<open>foreach\<close>,
  \<open>while\<close> and \<open>func\<close> expressions are parameters; \<open>dict_expr\<close> is given separately,
  being modelled below.
\<close>

record compound_v2 =
  list_expr2 :: "Parser \<Rightarrow> res"
  if_expr2 :: "Parser \<Rightarrow> res"
  for_expr2 :: "Parser \<Rightarrow> res"
  foreach_expr2 :: "Parser \<Rightarrow> res"
  while_expr2 :: "Parser \<Rightarrow> res"
  func_expr2 :: "Parser \<Rightarrow> res"

definition atom_v2 ::
  "compound_v2 \<Rightarrow> (Parser \<Rightarrow> res) \<Rightarrow> (Parser \<Rightarrow> res) \<Rightarrow> Parser \<Rightarrow> res" where
  "atom_v2 c expr dict_expr p =
     (case current_token p of None \<Rightarrow> Inl TypeError | Some token \<Rightarrow>
      if tok_type token = LPAREN then
        (case expr (advance p) of Inl e \<Rightarrow> Inl e | Inr (result, p1) \<Rightarrow>
         (case current_token p1 of None \<Rightarrow> Inl TypeError | Some t \<Rightarrow>
          if tok_type t \<noteq> RPAREN then Inl (InvalidSyntaxError Expected_rparen)
          else Inr (result, advance p1)))
      else if tok_type token = NUMBER then Inr (NumberNode token, advance p)
      else if tok_type token = STRING then Inr (StringNode token None, advance p)
      else if tok_type token = IDENTIFIER then
        (let var_name_tok = token; p1 = advance p in
         case current_token p1 of None \<Rightarrow> Inl TypeError | Some t \<Rightarrow>
         if tok_value var_name_tok = ''f'' \<and> tok_type t = STRING
           then Inr (StringNode t (Some True), advance p1)
         else if tok_type t = EQUALS then
           (case expr (advance p1) of Inl e \<Rightarrow> Inl e
            | Inr (value_node, p2) \<Rightarrow> Inr (VarModifyNode var_name_tok value_node, p2))
         else Inr (VarAccessNode token, p1))
      else if tok_type token = LSQUARE then list_expr2 c p
      else if tok_type token = LBRACK then dict_expr p
      else if matches token KEYWORD ''if'' then if_expr2 c p
      else if matches token KEYWORD ''for'' then for_expr2 c p
      else if matches token KEYWORD ''foreach'' then foreach_expr2 c p
      else if matches token KEYWORD ''while'' then while_expr2 c p
      else if matches token KEYWORD ''func'' then func_expr2 c p
      else Inl (InvalidSyntaxError ''Unexpected node''))"

text \<open>\<open>ignore_newlines()\<close> is the loop over \<open>NEWLINE\<close> tokens, without the count.\<close>

definition ignore_newlines :: "Parser \<Rightarrow> error + Parser" where
  "ignore_newlines p = (case skip_newlines 0 p of Inl e \<Rightarrow> Inl e | Inr (k, p1) \<Rightarrow> Inr p1)"

text \<open>
  \<open>read_element\<close>, the closure inside \<open>dict_expr()\<close> that reads one element and pushes it
  on \<open>dict_element_nodes\<close> (the argument \<open>elems\<close>, returned extended).
\<close>

definition read_element ::
  "(Parser \<Rightarrow> res) \<Rightarrow> Node list \<Rightarrow> Parser \<Rightarrow> error + Node list \<times> Parser" where
  "read_element expr elems p =
     (case expr p of Inl e \<Rightarrow> Inl e | Inr (key, p1) \<Rightarrow>
      (case ignore_newlines p1 of Inl e \<Rightarrow> Inl e | Inr p2 \<Rightarrow>
       (case key of
          StringNode s ac \<Rightarrow>
            (case current_token p2 of None \<Rightarrow> Inl TypeError | Some t \<Rightarrow>
             if tok_type t \<noteq> COLON then Inl (InvalidSyntaxError Expected_colon)
             else
               (case ignore_newlines (advance p2) of Inl e \<Rightarrow> Inl e | Inr p3 \<Rightarrow>
                (case expr p3 of Inl e \<Rightarrow> Inl e | Inr (v, p4) \<Rightarrow>
                 (case ignore_newlines p4 of Inl e \<Rightarrow> Inl e
                  | Inr p5 \<Rightarrow> Inr (elems @ [DictionnaryElementNode key v], p5)))))
        | VarAccessNode var_name_tok \<Rightarrow>
            (case current_token p2 of None \<Rightarrow> Inl TypeError | Some t \<Rightarrow>
             if tok_type t = COLON
               then Inl (InvalidSyntaxError ''Expected a comma, or change the key to a string'')
             else Inr (elems @ [DictionnaryElementNode (StringNode var_name_tok None) key], p2))
        | _ \<Rightarrow> Inl (InvalidSyntaxError ''Expected a string or an identifier as key''))))"

text \<open>
  \<open>dict_expr()\<close>: \<open>{\<close>, then \<open>}\<close> at once or elements separated by commas, a comma
  before the closing \<open>}\<close> being allowed. The loop over the commas is bounded by a counter.
\<close>

primrec dict_loop ::
  "nat \<Rightarrow> (Parser \<Rightarrow> res) \<Rightarrow> Node list \<Rightarrow> Parser \<Rightarrow> error + Node list \<times> Parser" where
  "dict_loop 0 expr elems p = Inl OutOfFuel"
| "dict_loop (Suc n) expr elems p =
     (case current_token p of None \<Rightarrow> Inl TypeError | Some t \<Rightarrow>
      if tok_type t = COMMA then
        (case ignore_newlines (advance p) of Inl e \<Rightarrow> Inl e | Inr p1 \<Rightarrow>
         (case current_token p1 of None \<Rightarrow> Inl TypeError | Some t1 \<Rightarrow>
          if tok_type t1 = RBRACK then Inr (elems, p1)
          else
            (case read_element expr elems p1 of Inl e \<Rightarrow> Inl e
             | Inr (elems', p2) \<Rightarrow> dict_loop n expr elems' p2)))
      else Inr (elems, p))"

definition dict_expr :: "nat \<Rightarrow> (Parser \<Rightarrow> res) \<Rightarrow> Parser \<Rightarrow> res" where
  "dict_expr n expr p =
     (case current_token p of None \<Rightarrow> Inl TypeError | Some t0 \<Rightarrow>
      (case ignore_newlines (advance p) of Inl e \<Rightarrow> Inl e | Inr p1 \<Rightarrow>
       (case current_token p1 of None \<Rightarrow> Inl TypeError | Some t1 \<Rightarrow>
        if tok_type t1 = RBRACK then Inr (DictionnaryNode [], advance p1)
        else
          (case read_element expr [] p1 of Inl e \<Rightarrow> Inl e | Inr (elems1, p2) \<Rightarrow>
           (case dict_loop n expr elems1 p2 of Inl e \<Rightarrow> Inl e | Inr (elems, p3) \<Rightarrow>
            (case ignore_newlines p3 of Inl e \<Rightarrow> Inl e | Inr p4 \<Rightarrow>
             (case current_token p4 of None \<Rightarrow> Inl TypeError | Some t \<Rightarrow>
              if tok_type t \<noteq> RBRACK then Inl (InvalidSyntaxError Expected_comma_or_rbrack)
              else Inr (DictionnaryNode elems, advance p4))))))))"


section \<open>The value model and the operators of the interpreter\<close>

text \<open>
  \<open>interpreter.js\<close> and \<open>values.js\<close> are not among the sources; only the interpreter's
  tests are (src/unnamed/part\_003). The operators below are therefore written from the
  specification, section 4.4, and where its sentences leave the order of the rules open or
  overlap, the assertions of the tests decide. Every definition of this section says which
  sentence or which test each of its cases comes from.
\<close>

text \<open>
  Modelled from the spec: the runtime values of \<open>values.js\<close> (spec, section 3). A Number
  is a double in the source and a real number here, so nothing below speaks about rounding,
  infinities, NaN or the sign of zero. A Dictionary is an insertion-ordered mapping from
  strings to values. Of a Function, a Class, an Instance and an Enum only the name is kept.
\<close>

datatype Value =
    NumberValue real
  | StringValue string
  | ListValue "Value list"
  | DictionnaryValue "(string \<times> Value) list"
  | FunctionValue string
  | ClassValue string
  | InstanceValue string
  | EnumValue string "string list"
  | NoneValue

text \<open>
  Modelled from the spec: the runtime errors of \<open>Exceptions.js\<close>, by the causes that
  section 7 lists for the operators: division or modulo by zero, and operand kinds that an
  operator does not accept.
\<close>

datatype error_kind = DivisionByZero | InvalidOperands

datatype RuntimeError = RuntimeError error_kind

type_synonym vres = "RuntimeError + Value"

text \<open>
  Modelled from the spec: the string conversion of a value used by \<open>+\<close>. The conversion
  of \<open>values.js\<close> is a parameter \<open>str\<close>; a String converts to itself.
\<close>

definition to_str :: "(Value \<Rightarrow> string) \<Rightarrow> Value \<Rightarrow> string" where
  "to_str str v = (case v of StringValue t \<Rightarrow> t | _ \<Rightarrow> str v)"

text \<open>
  Modelled from the spec: Dictionary + Dictionary ``merges keys (right operand wins on
  collision)''. An entry of the right operand replaces the value of its key where the
  left has the key, and is added at the end otherwise.
\<close>

fun dict_put :: "(string \<times> Value) list \<Rightarrow> string \<Rightarrow> Value \<Rightarrow> (string \<times> Value) list" where
  "dict_put [] k v = [(k, v)]"
| "dict_put ((k', v') # d) k v = (if k' = k then (k, v) # d else (k', v') # dict_put d k v)"

definition dict_merge :: "(string \<times> Value) list \<Rightarrow> (string \<times> Value) list \<Rightarrow> (string \<times> Value) list" where
  "dict_merge d e = foldl (\<lambda>acc (k, v). dict_put acc k v) d e"

text \<open>
  Modelled from the spec: the visit of an \<open>AddNode\<close> on the values of its two operands.
  \<^item> A List operand comes first. The tests assert \<open>[0] + 1\<close>, \<open>1 + [0]\<close>,
    \<open>[0] + "string"\<close>, \<open>"string" + [0]\<close>, \<open>[0] + {"age":17}\<close>, \<open>{"age":17} + [0]\<close>,
    \<open>[0] + none\<close> and \<open>none + [0]\<close> to be the list \<open>[0]\<close> followed by the other
    operand, and \<open>[0] + [1]\<close> to be \<open>[0, 1]\<close> (part\_003, lines 132 to 311).
  \<^item> Then None: ``any operand being None acts as the additive identity (returns the other
    operand unchanged)'', \<open>none + none\<close> being the Number 0 (part\_003, lines 349 to 354). The
    specification takes the Dictionary out of this rule (section 8) and gives no other
    rule for a Dictionary and None.
  \<^item> ``Number+Number is arithmetic sum''.
  \<^item> ``String+anything concatenates (using each value's string conversion)'', on either
    side (\<open>2 + "string"\<close> is \<open>"2string"\<close>, part\_003, lines 84 to 89).
  \<^item> ``Dictionary+Dictionary merges keys''.
  \<^item> Any other pair of kinds is not accepted.
\<close>

fun add_values :: "(Value \<Rightarrow> string) \<Rightarrow> Value \<Rightarrow> Value \<Rightarrow> vres" where
  "add_values str (ListValue xs) (ListValue ys) = Inr (ListValue (xs @ ys))"
| "add_values str (ListValue xs) r = Inr (ListValue (xs @ [r]))"
| "add_values str l (ListValue ys) = Inr (ListValue (ys @ [l]))"
| "add_values str NoneValue NoneValue = Inr (NumberValue 0)"
| "add_values str NoneValue (DictionnaryValue e) = Inl (RuntimeError InvalidOperands)"
| "add_values str (DictionnaryValue d) NoneValue = Inl (RuntimeError InvalidOperands)"
| "add_values str NoneValue r = Inr r"
| "add_values str l NoneValue = Inr l"
| "add_values str (NumberValue a) (NumberValue b) = Inr (NumberValue (a + b))"
| "add_values str (StringValue s) r = Inr (StringValue (s @ to_str str r))"
| "add_values str l (StringValue t) = Inr (StringValue (to_str str l @ t))"
| "add_values str (DictionnaryValue d) (DictionnaryValue e) = Inr (DictionnaryValue (dict_merge d e))"
| "add_values str l r = Inl (RuntimeError InvalidOperands)"

text \<open>
  Modelled from the spec: the visit of a \<open>MultiplyNode\<close>. ``Number*Number arithmetic;
  String*Number repeats the string; List*Number repeats the list's elements'', the Number
  on either side (\<open>2 * "str"\<close> and \<open>3 * [0]\<close>, part\_003, lines 399 to 429). None stands
  for the Number zero (\<open>10 * none\<close>, \<open>none * 10\<close> and \<open>none * none\<close> are 0, part\_003,
  lines 375 to 393; ``None compares as its numeric-zero equivalent''). The specification
  does not say what a count that is not a natural number does; here it is not accepted.
\<close>

definition none_as_zero :: "Value \<Rightarrow> Value" where
  "none_as_zero v = (case v of NoneValue \<Rightarrow> NumberValue 0 | _ \<Rightarrow> v)"

definition repeat_count :: "real \<Rightarrow> nat option" where
  "repeat_count n = (if 0 \<le> n \<and> n = of_int \<lfloor>n\<rfloor> then Some (nat \<lfloor>n\<rfloor>) else None)"

fun multiply_numbers :: "Value \<Rightarrow> Value \<Rightarrow> vres" where
  "multiply_numbers (NumberValue a) (NumberValue b) = Inr (NumberValue (a * b))"
| "multiply_numbers (StringValue s) (NumberValue n) =
     (case repeat_count n of Some k \<Rightarrow> Inr (StringValue (concat (replicate k s)))
      | None \<Rightarrow> Inl (RuntimeError InvalidOperands))"
| "multiply_numbers (NumberValue n) (StringValue s) =
     (case repeat_count n of Some k \<Rightarrow> Inr (StringValue (concat (replicate k s)))
      | None \<Rightarrow> Inl (RuntimeError InvalidOperands))"
| "multiply_numbers (ListValue xs) (NumberValue n) =
     (case repeat_count n of Some k \<Rightarrow> Inr (ListValue (concat (replicate k xs)))
      | None \<Rightarrow> Inl (RuntimeError InvalidOperands))"
| "multiply_numbers (NumberValue n) (ListValue xs) =
     (case repeat_count n of Some k \<Rightarrow> Inr (ListValue (concat (replicate k xs)))
      | None \<Rightarrow> Inl (RuntimeError InvalidOperands))"
| "multiply_numbers l r = Inl (RuntimeError InvalidOperands)"

definition multiply_values :: "Value \<Rightarrow> Value \<Rightarrow> vres" where
  "multiply_values l r = multiply_numbers (none_as_zero l) (none_as_zero r)"

text \<open>
  Modelled from the spec: the visits of a \<open>DivideNode\<close> and of a \<open>ModuloNode\<close>.
  ``Division and modulo by None or by zero fail with a RuntimeError (DivisionByZero kind);
  division/modulo require both operands Number-coercible.'' The tests add that \<open>none / 5\<close>
  and \<open>none % 5\<close> raise a RuntimeError (part\_003, lines 432 to 526), so None as the
  left operand is not accepted; neither the specification nor the tests say of which kind
  that error is, and the kind is the parameter \<open>k\<close>. The remainder is JavaScript's, with
  the sign of the dividend.
\<close>

definition js_rem :: "real \<Rightarrow> real \<Rightarrow> real" where
  "js_rem a b = a - b * of_int (if 0 \<le> a / b then \<lfloor>a / b\<rfloor> else \<lceil>a / b\<rceil>)"

fun divide_with :: "(real \<Rightarrow> real \<Rightarrow> real) \<Rightarrow> error_kind \<Rightarrow> Value \<Rightarrow> Value \<Rightarrow> vres" where
  "divide_with f k (NumberValue a) NoneValue = Inl (RuntimeError DivisionByZero)"
| "divide_with f k NoneValue NoneValue = Inl (RuntimeError DivisionByZero)"
| "divide_with f k (NumberValue a) (NumberValue b) =
     (if b = 0 then Inl (RuntimeError DivisionByZero) else Inr (NumberValue (f a b)))"
| "divide_with f k NoneValue (NumberValue b) =
     (if b = 0 then Inl (RuntimeError DivisionByZero) else Inl (RuntimeError k))"
| "divide_with f k l r = Inl (RuntimeError InvalidOperands)"

definition divide_values :: "error_kind \<Rightarrow> Value \<Rightarrow> Value \<Rightarrow> vres" where
  "divide_values = divide_with (\<lambda>a b. a / b)"

definition modulo_values :: "error_kind \<Rightarrow> Value \<Rightarrow> Value \<Rightarrow> vres" where
  "modulo_values = divide_with js_rem"



text \<open>
  Modelled from the spec: the visit of an \<open>EqualsNode\<close>. ``Equality is deep/structural
  for List and Dictionary (pairwise element equality, Dictionary compares by key-set and
  values), value-based for Number/String with automatic numeric-string coercion (a String
  convertible to a Number compares numerically), and None compares equal to itself and to
  the numeric zero.'' The conversion of a String to a Number is the parameter
  \<open>to_number\<close>, with no result for a String that is not convertible. A String and None
  are different (\<open>"str" == none\<close> is 0, part\_003, lines 692 to 697), as are two values of any
  pair of kinds not named in the sentence. The result is the Number 1 or 0.
\<close>

fun is_equal :: "(string \<Rightarrow> real option) \<Rightarrow> Value \<Rightarrow> Value \<Rightarrow> bool"
  and is_equal_list :: "(string \<Rightarrow> real option) \<Rightarrow> Value list \<Rightarrow> Value list \<Rightarrow> bool"
  and is_equal_entries ::
    "(string \<Rightarrow> real option) \<Rightarrow> (string \<times> Value) list \<Rightarrow> (string \<times> Value) list \<Rightarrow> bool" where
  "is_equal to_number (NumberValue a) (NumberValue b) = (a = b)"
| "is_equal to_number (StringValue s) (StringValue t) = (s = t)"
| "is_equal to_number (StringValue s) (NumberValue b) =
     (case to_number s of Some a \<Rightarrow> a = b | None \<Rightarrow> False)"
| "is_equal to_number (NumberValue a) (StringValue t) =
     (case to_number t of Some b \<Rightarrow> a = b | None \<Rightarrow> False)"
| "is_equal to_number NoneValue NoneValue = True"
| "is_equal to_number NoneValue (NumberValue b) = (b = 0)"
| "is_equal to_number (NumberValue a) NoneValue = (a = 0)"
| "is_equal to_number (ListValue xs) (ListValue ys) = is_equal_list to_number xs ys"
| "is_equal to_number (DictionnaryValue d) (DictionnaryValue e) =
     (set (map fst d) = set (map fst e) \<and> is_equal_entries to_number d e)"
| "is_equal to_number l r = False"
| "is_equal_list to_number [] [] = True"
| "is_equal_list to_number (x # xs) (y # ys) =
     (is_equal to_number x y \<and> is_equal_list to_number xs ys)"
| "is_equal_list to_number xs ys = False"
| "is_equal_entries to_number [] e = True"
| "is_equal_entries to_number ((k, v) # d) e =
     ((case map_of e k of None \<Rightarrow> False | Some w \<Rightarrow> is_equal to_number v w)
      \<and> is_equal_entries to_number d e)"

definition equals_values :: "(string \<Rightarrow> real option) \<Rightarrow> Value \<Rightarrow> Value \<Rightarrow> Value" where
  "equals_values to_number l r = NumberValue (if is_equal to_number l r then 1 else 0)"


section \<open>Concrete inputs\<close>

text \<open>
  The second parser restricted to its outermost and innermost methods: \<open>expr\<close>, \<open>atom\<close>
  and \<open>dict_expr\<close>, with \<open>atom\<close> in the place of \<open>comp_expr\<close> and of \<open>call\<close>. It
  serves to run \<open>expr_v2\<close>, \<open>atom_v2\<close> and \<open>read_element\<close> on token lists; the
  theorems about these three hold for whatever is put in the place of their parameters.
\<close>

fun parse_expr_v2 :: "compound_v2 \<Rightarrow> nat \<Rightarrow> Parser \<Rightarrow> res"
  and parse_atom_v2 :: "compound_v2 \<Rightarrow> nat \<Rightarrow> Parser \<Rightarrow> res" where
  "parse_expr_v2 c 0 p = Inl OutOfFuel"
| "parse_expr_v2 c (Suc n) p =
     expr_v2 (parse_expr_v2 c n) (parse_atom_v2 c n) (parse_atom_v2 c n) p"
| "parse_atom_v2 c 0 p = Inl OutOfFuel"
| "parse_atom_v2 c (Suc n) p =
     atom_v2 c (parse_expr_v2 c n) (dict_expr (Suc n) (parse_expr_v2 c n)) p"

text \<open>The tokens of \<open>var none = 5\<close> and of \<open>none = 5\<close>.\<close>

definition var_none_tokens :: "Token list" where
  "var_none_tokens =
     [Token KEYWORD ''var'', Token IDENTIFIER ''none'', Token EQUALS ''='', Token NUMBER ''5'',
      Token EOF '''']"

definition none_assign_tokens :: "Token list" where
  "none_assign_tokens =
     [Token IDENTIFIER ''none'', Token EQUALS ''='', Token NUMBER ''5'', Token EOF '''']"

text \<open>The tokens of \<open>{ age }\<close>, of \<open>{ age: 17 }\<close> and of \<open>{ 1: 17 }\<close>.\<close>

definition dict_age_tokens :: "Token list" where
  "dict_age_tokens =
     [Token LBRACK ''{'', Token IDENTIFIER ''age'', Token RBRACK ''}'', Token EOF '''']"

definition dict_age_colon_tokens :: "Token list" where
  "dict_age_colon_tokens =
     [Token LBRACK ''{'', Token IDENTIFIER ''age'', Token COLON '':'', Token NUMBER ''17'',
      Token RBRACK ''}'', Token EOF '''']"

definition dict_number_key_tokens :: "Token list" where
  "dict_number_key_tokens =
     [Token LBRACK ''{'', Token NUMBER ''1'', Token COLON '':'', Token NUMBER ''17'',
      Token RBRACK ''}'', Token EOF '''']"

text \<open>
  Two stores of two tables each, the second table the child of the first. In the first
  store the parent binds \<open>x\<close> to 5 and the child binds nothing; in the second the child
  binds \<open>x\<close> to \<open>null\<close>.
\<close>

definition scope_chain :: "nat store" where
  "scope_chain =
     [\<lparr>symbols = [''x'' \<mapsto> Val 5], parent = None\<rparr>,
      \<lparr>symbols = Map.empty, parent = Some 0\<rparr>]"

definition scope_chain_null :: "nat store" where
  "scope_chain_null =
     [\<lparr>symbols = [''x'' \<mapsto> Val 5], parent = None\<rparr>,
      \<lparr>symbols = [''x'' \<mapsto> Null], parent = Some 0\<rparr>]"

text \<open>A conversion of Strings to Numbers that converts \<open>"5"\<close> only.\<close>

definition five_only :: "string \<Rightarrow> real option" where
  "five_only s = (if s = ''5'' then Some 5 else None)"


section \<open>Properties of the symbol table\<close>

lemma ancestor_less: "ancestor h a b \<Longrightarrow> wf_store h \<Longrightarrow> b < a"
proof (induction rule: ancestor.induct)
  case (parent_step a p)
  then show ?case by (auto simp: wf_store_def split: option.splits)
next
  case (parent_trans a p b)
  then have "p < a" by (auto simp: wf_store_def split: option.splits)
  with parent_trans show ?case by simp
qed

lemma set_other: "b \<noteq> a \<Longrightarrow> SymbolTable_set h a name v ! b = h ! b"
  by (simp add: SymbolTable_set_def)

lemma set_own:
  "a < length h \<Longrightarrow>
   SymbolTable_set h a name v ! a = (h ! a)\<lparr>symbols := (symbols (h ! a))(name \<mapsto> v)\<rparr>"
  by (simp add: SymbolTable_set_def)

lemma length_set: "length (SymbolTable_set h a name v) = length h"
  by (simp add: SymbolTable_set_def)

text \<open>The constructor and \<open>set\<close> keep the store well formed.\<close>

lemma wf_store_new:
  "wf_store h \<Longrightarrow> (case p of None \<Rightarrow> True | Some q \<Rightarrow> q < length h) \<Longrightarrow>
   wf_store (snd (SymbolTable_new h p))"
  by (auto simp: wf_store_def SymbolTable_new_def nth_append less_Suc_eq split: option.splits)

lemma wf_store_set: "wf_store h \<Longrightarrow> wf_store (SymbolTable_set h a name v)"
proof -
  assume wf: "wf_store h"
  have "parent (SymbolTable_set h a name v ! b) = parent (h ! b)" if "b < length h" for b
    using that by (cases "b = a") (simp_all add: SymbolTable_set_def)
  with wf show ?thesis by (simp add: wf_store_def length_set)
qed

lemma get_local:
  "a < length h \<Longrightarrow> symbols (h ! a) name = Some (Val v) \<Longrightarrow>
   SymbolTable_get h a name = Some (Val v)"
  by (subst SymbolTable_get.simps) simp

lemma get_delegate:
  "a < length h \<Longrightarrow> symbols (h ! a) name = None \<or> symbols (h ! a) name = Some Null \<Longrightarrow>
   parent (h ! a) = Some p \<Longrightarrow> SymbolTable_get h a name = SymbolTable_get h p name"
  by (subst SymbolTable_get.simps) auto

lemma get_root:
  "a < length h \<Longrightarrow> symbols (h ! a) name = None \<or> symbols (h ! a) name = Some Null \<Longrightarrow>
   parent (h ! a) = None \<Longrightarrow> SymbolTable_get h a name = Some Null"
  by (subst SymbolTable_get.simps) auto

text \<open>In a well-formed store every lookup returns.\<close>

lemma get_total: "wf_store h \<Longrightarrow> a < length h \<Longrightarrow> \<exists>r. SymbolTable_get h a name = Some r"
proof (induction a rule: less_induct)
  case (less a)
  show ?case
  proof (cases "parent (h ! a)")
    case None
    with less.prems show ?thesis by (subst SymbolTable_get.simps) simp
  next
    case (Some p)
    with less.prems have "p < a" by (auto simp: wf_store_def split: option.splits)
    with less have "\<exists>r. SymbolTable_get h p name = Some r" by simp
    with Some less.prems show ?thesis by (subst SymbolTable_get.simps) (simp add: Let_def)
  qed
qed

lemma get_unbound:
  "wf_store h \<Longrightarrow> a < length h \<Longrightarrow>
   \<forall>b. b = a \<or> ancestor h a b \<longrightarrow> symbols (h ! b) name = None \<or> symbols (h ! b) name = Some Null \<Longrightarrow>
   SymbolTable_get h a name = Some Null"
proof (induction a rule: less_induct)
  case (less a)
  have own: "symbols (h ! a) name = None \<or> symbols (h ! a) name = Some Null"
    using less.prems by blast
  show ?case
  proof (cases "parent (h ! a)")
    case None
    with less.prems own show ?thesis by (simp add: get_root)
  next
    case (Some p)
    with less.prems have "p < a" by (auto simp: wf_store_def split: option.splits)
    moreover have "\<forall>b. b = p \<or> ancestor h p b \<longrightarrow>
        symbols (h ! b) name = None \<or> symbols (h ! b) name = Some Null"
      using less.prems Some by (meson ancestor.intros)
    ultimately have "SymbolTable_get h p name = Some Null" using less by simp
    with Some less.prems own show ?thesis by (simp add: get_delegate)
  qed
qed

lemma wf_scope_chain: "wf_store scope_chain"
  by (simp add: wf_store_def scope_chain_def less_Suc_eq)

lemma ancestor_scope_chain: "ancestor scope_chain 1 0"
  by (rule parent_step) (simp_all add: scope_chain_def)

text \<open>
  Claim C4, as stated: for some chain of scopes in which an ancestor binds a name,
  \<open>SymbolTable.set\<close> called on a child table changes an entry of the ancestor's own map.
  It is false: there is no store built by the constructor, no child and no ancestor of it
  whose map differs after a \<open>set\<close> on the child.
\<close>

theorem set_never_changes_an_ancestor:
  "\<not> (\<exists>(h :: nat store) c b name v.
        wf_store h \<and> c < length h \<and> ancestor h c b
        \<and> symbols (SymbolTable_set h c name v ! b) \<noteq> symbols (h ! b))"
proof
  assume "\<exists>(h :: nat store) c b name v.
        wf_store h \<and> c < length h \<and> ancestor h c b
        \<and> symbols (SymbolTable_set h c name v ! b) \<noteq> symbols (h ! b)"
  then obtain h :: "nat store" and c b name v where
    wf: "wf_store h" and anc: "ancestor h c b"
    and neq: "symbols (SymbolTable_set h c name v ! b) \<noteq> symbols (h ! b)"
    by blast
  from anc wf have "b \<noteq> c" by (auto dest: ancestor_less)
  then have "SymbolTable_set h c name v ! b = h ! b" by (rule set_other)
  with neq show False by simp
qed

text \<open>
  Claim C4, amended: \<open>SymbolTable.set\<close> called on a child table changes the child's own
  map only, where it binds the name to the value. The child's parent reference, every
  other table and so every ancestor's map stay as they were; a lookup of the name through
  the child then finds the new value (when it is not \<open>null\<close>), which shadows the
  ancestor's binding.
\<close>

theorem set_changes_own_map_only:
  assumes "wf_store h" and "c < length h"
  shows "symbols (SymbolTable_set h c name v ! c) = (symbols (h ! c))(name \<mapsto> v)
       \<and> parent (SymbolTable_set h c name v ! c) = parent (h ! c)
       \<and> (\<forall>b. b \<noteq> c \<longrightarrow> SymbolTable_set h c name v ! b = h ! b)
       \<and> (\<forall>b. ancestor h c b \<longrightarrow> SymbolTable_set h c name v ! b = h ! b)
       \<and> (\<forall>w. v = Val w \<longrightarrow> SymbolTable_get (SymbolTable_set h c name v) c name = Some v)"
proof -
  have own: "SymbolTable_set h c name v ! c = (h ! c)\<lparr>symbols := (symbols (h ! c))(name \<mapsto> v)\<rparr>"
    using assms(2) by (rule set_own)
  have anc: "SymbolTable_set h c name v ! b = h ! b" if "ancestor h c b" for b
  proof -
    from that assms(1) have "b \<noteq> c" by (auto dest: ancestor_less)
    then show ?thesis by (rule set_other)
  qed
  have look: "SymbolTable_get (SymbolTable_set h c name v) c name = Some v" if "v = Val w" for w
    using that assms(2) own by (intro get_local [where v = w, simplified that [symmetric]])
      (simp_all add: length_set)
  from own anc look show ?thesis by (simp add: set_other)
qed

theorem set_changes_own_map_only_witness:
  "wf_store scope_chain \<and> 1 < length scope_chain \<and> ancestor scope_chain 1 0
   \<and> symbols (SymbolTable_set scope_chain 1 ''x'' (Val 7) ! 1) ''x'' = Some (Val 7)
   \<and> SymbolTable_set scope_chain 1 ''x'' (Val 7) ! 0 = scope_chain ! 0
   \<and> symbols (SymbolTable_set scope_chain 1 ''x'' (Val 7) ! 0) ''x'' = Some (Val 5)
   \<and> SymbolTable_get (SymbolTable_set scope_chain 1 ''x'' (Val 7)) 1 ''x'' = Some (Val 7)"
proof -
  have len: "1 < length scope_chain" by (simp add: scope_chain_def)
  note T = set_changes_own_map_only [OF wf_scope_chain len, of "''x''" "Val 7"]
  from T ancestor_scope_chain
  have "SymbolTable_set scope_chain 1 ''x'' (Val 7) ! 0 = scope_chain ! 0" by blast
  moreover from T
  have "SymbolTable_get (SymbolTable_set scope_chain 1 ''x'' (Val 7)) 1 ''x'' = Some (Val 7)"
    by blast
  moreover from T
  have "symbols (SymbolTable_set scope_chain 1 ''x'' (Val 7) ! 1) ''x'' = Some (Val 7)"
    by simp
  moreover have "symbols (scope_chain ! 0) ''x'' = Some (Val 5)" by (simp add: scope_chain_def)
  ultimately show ?thesis using wf_scope_chain len ancestor_scope_chain by simp
qed

text \<open>
  Claim C9, as stated: \<open>get(name)\<close> returns the locally bound value when the local map
  binds \<open>name\<close>. It fails where the local map binds the name to \<open>null\<close>: in
  \<open>scope_chain_null\<close> the child's map has the name (\<open>doesExist\<close> is true), bound to
  \<open>null\<close>, and \<open>get\<close> returns the parent's 5.
\<close>

theorem get_skips_a_local_null:
  "doesExist scope_chain_null 1 ''x''
   \<and> symbols (scope_chain_null ! 1) ''x'' = Some Null
   \<and> SymbolTable_get scope_chain_null 1 ''x'' = Some (Val 5)
   \<and> SymbolTable_get scope_chain_null 1 ''x'' \<noteq> symbols (scope_chain_null ! 1) ''x''"
  by (simp add: scope_chain_null_def doesExist_def SymbolTable_get.simps)

text \<open>In \<open>scope_chain\<close> the child inherits the parent's binding of \<open>x\<close>.\<close>

lemma scope_chain_inherits:
  "\<not> doesExist scope_chain 1 ''x'' \<and> SymbolTable_get scope_chain 1 ''x'' = Some (Val 5)
   \<and> symbols (scope_chain ! 0) ''x'' = Some (Val 5)"
  by (simp add: scope_chain_def doesExist_def SymbolTable_get.simps)

text \<open>
  Claim C9, amended: \<open>get(name)\<close> returns the locally bound value when the local map
  binds \<open>name\<close> to a value other than \<open>null\<close>; when the local map does not bind the name,
  or binds it to \<open>null\<close>, it returns what the parent's \<open>get\<close> returns if there is a
  parent and \<open>null\<close> otherwise, so it returns \<open>null\<close>, with no error, when no scope of
  the chain binds the name to a value other than \<open>null\<close>; it always returns.
  \<open>doesExist(name)\<close> consults the local map only, so \<open>doesExist(name)\<close> can be false
  while \<open>get(name)\<close> returns a non-null value inherited from an ancestor scope: there is a
  chain of scopes where it is.
\<close>

theorem get_and_doesExist:
  assumes "wf_store h" and "a < length h"
  shows "(\<forall>v. symbols (h ! a) name = Some (Val v) \<longrightarrow> SymbolTable_get h a name = Some (Val v))
       \<and> (symbols (h ! a) name = None \<or> symbols (h ! a) name = Some Null \<longrightarrow>
            (case parent (h ! a) of
               Some p \<Rightarrow> SymbolTable_get h a name = SymbolTable_get h p name
             | None \<Rightarrow> SymbolTable_get h a name = Some Null))
       \<and> ((\<forall>b. b = a \<or> ancestor h a b \<longrightarrow>
              symbols (h ! b) name = None \<or> symbols (h ! b) name = Some Null) \<longrightarrow>
            SymbolTable_get h a name = Some Null)
       \<and> (\<exists>r. SymbolTable_get h a name = Some r)
       \<and> doesExist h a name = (name \<in> dom (symbols (h ! a)))
       \<and> (\<exists>(h' :: nat store) a' b' name' v.
             wf_store h' \<and> a' < length h' \<and> ancestor h' a' b'
             \<and> symbols (h' ! b') name' = Some (Val v)
             \<and> \<not> doesExist h' a' name' \<and> SymbolTable_get h' a' name' = Some (Val v))"
proof -
  have 1: "\<forall>v. symbols (h ! a) name = Some (Val v) \<longrightarrow> SymbolTable_get h a name = Some (Val v)"
    using assms(2) by (simp add: get_local)
  have 2: "symbols (h ! a) name = None \<or> symbols (h ! a) name = Some Null \<longrightarrow>
            (case parent (h ! a) of
               Some p \<Rightarrow> SymbolTable_get h a name = SymbolTable_get h p name
             | None \<Rightarrow> SymbolTable_get h a name = Some Null)"
    using assms(2) by (auto split: option.splits intro: get_delegate get_root)
  have 3: "(\<forall>b. b = a \<or> ancestor h a b \<longrightarrow>
              symbols (h ! b) name = None \<or> symbols (h ! b) name = Some Null) \<longrightarrow>
            SymbolTable_get h a name = Some Null"
    using assms by (blast intro: get_unbound)
  have 4: "\<exists>r. SymbolTable_get h a name = Some r"
    using assms by (rule get_total)
  have 5: "doesExist h a name = (name \<in> dom (symbols (h ! a)))"
    by (auto simp: doesExist_def)
  have "wf_store scope_chain \<and> 1 < length scope_chain \<and> ancestor scope_chain 1 0
      \<and> symbols (scope_chain ! 0) ''x'' = Some (Val 5)
      \<and> \<not> doesExist scope_chain 1 ''x'' \<and> SymbolTable_get scope_chain 1 ''x'' = Some (Val 5)"
    using wf_scope_chain ancestor_scope_chain scope_chain_inherits
    by (simp add: scope_chain_def)
  then have 6: "\<exists>(h' :: nat store) a' b' name' v.
             wf_store h' \<and> a' < length h' \<and> ancestor h' a' b'
             \<and> symbols (h' ! b') name' = Some (Val v)
             \<and> \<not> doesExist h' a' name' \<and> SymbolTable_get h' a' name' = Some (Val v)"
    by blast
  from 1 2 3 4 5 6 show ?thesis by blast
qed

theorem get_and_doesExist_witness:
  "wf_store scope_chain \<and> 1 < length scope_chain \<and> 0 < length scope_chain
   \<and> symbols (scope_chain ! 0) ''x'' = Some (Val 5)
   \<and> SymbolTable_get scope_chain 0 ''x'' = Some (Val 5)
   \<and> symbols (scope_chain ! 1) ''x'' = None \<and> parent (scope_chain ! 1) = Some 0
   \<and> \<not> doesExist scope_chain 1 ''x''
   \<and> SymbolTable_get scope_chain 1 ''x'' = Some (Val 5)
   \<and> symbols (scope_chain ! 0) ''y'' = None \<and> symbols (scope_chain ! 1) ''y'' = None
   \<and> SymbolTable_get scope_chain 1 ''y'' = Some Null"
proof -
  have len1: "1 < length scope_chain" and len0: "0 < length scope_chain"
    by (simp_all add: scope_chain_def)
  have facts: "symbols (scope_chain ! 0) ''x'' = Some (Val 5)"
    "symbols (scope_chain ! 1) ''x'' = None" "parent (scope_chain ! 1) = Some 0"
    "symbols (scope_chain ! 0) ''y'' = None" "symbols (scope_chain ! 1) ''y'' = None"
    "parent (scope_chain ! 0) = None"
    by (simp_all add: scope_chain_def)
  note T0 = get_and_doesExist [OF wf_scope_chain len0]
  note T1 = get_and_doesExist [OF wf_scope_chain len1]
  from T0 [of "''x''"] facts(1) have a: "SymbolTable_get scope_chain 0 ''x'' = Some (Val 5)"
    by blast
  from T1 [of "''x''"] facts(2,3)
  have "SymbolTable_get scope_chain 1 ''x'' = SymbolTable_get scope_chain 0 ''x''"
    by simp
  with a have b: "SymbolTable_get scope_chain 1 ''x'' = Some (Val 5)" by simp
  from T1 [of "''x''"] facts(2) have b': "\<not> doesExist scope_chain 1 ''x''"
    by (simp add: dom_def)
  from T0 [of "''y''"] facts(4,6) have "SymbolTable_get scope_chain 0 ''y'' = Some Null"
    by simp
  with T1 [of "''y''"] facts(3,5) have c: "SymbolTable_get scope_chain 1 ''y'' = Some Null"
    by simp
  from a b b' c facts wf_scope_chain len0 len1 show ?thesis by simp
qed

section \<open>Properties of the parsers\<close>

lemmas parser_defs =
  Parser_new_def set_token_def advance_def matches_def is_in_def CONSTANTS_keys_def
  expr_v1_def comp_expr_v1_def arith_expr_v1_def term_v1_def factor_v1_def
  statements_v1_def parse_v1_def expr_v2_def atom_v2_def ignore_newlines_def
  read_element_def dict_expr_def

text \<open>The loop over the newlines stops on a token, and that token is no newline.\<close>

lemma skip_newlines_Some:
  "skip_newlines k p = Inr (k', p') \<Longrightarrow> \<exists>t. current_token p' = Some t \<and> tok_type t \<noteq> NEWLINE"
proof (induction k p rule: skip_newlines.induct)
  case (1 k p)
  then show ?case
    by (subst (asm) (2) skip_newlines.simps) (auto split: option.splits if_splits)
qed

lemma ignore_newlines_Some:
  "ignore_newlines p = Inr p' \<Longrightarrow> \<exists>t. current_token p' = Some t \<and> tok_type t \<noteq> NEWLINE"
  by (auto simp: ignore_newlines_def simp del: skip_newlines.simps split: sum.splits
      dest: skip_newlines_Some)

text \<open>
  Claim C3, as stated: every program text that re-declares a reserved constant name with
  \<open>var name = ...\<close> is rejected by the parser with a syntax error. It is false: the first
  parser accepts \<open>var none = 5\<close> and returns the statement list holding the
  \<open>VarAssignNode\<close>, whatever its methods for lists and control flow do.
\<close>

theorem parse_v1_accepts_var_none:
  "\<forall>c. parse_v1 c 10 var_none_tokens =
     Inr (Some (ListNode
       [VarAssignNode (Token IDENTIFIER ''none'') (NumberNode (Token NUMBER ''5''))]))"
  by (simp add: var_none_tokens_def parser_defs eval_nat_numeral skip_newlines.simps)

text \<open>
  Claim C3, amended: neither parser rejects a declaration \<open>var name = e\<close> for the name it
  declares, a reserved constant name included: whenever \<open>e\<close> parses, \<open>expr\<close> returns the
  \<open>VarAssignNode\<close> of the name and of \<open>e\<close>'s node. The check of the reserved names
  (none, null, yes, true, no, false) sits on the bare reassignment \<open>name = e\<close> of the
  first parser, whose \<open>factor\<close> rejects it with the syntax error ``Invalid variable name
  for assigment.''; the \<open>atom\<close> of the second parser has no such check and returns the
  \<open>VarModifyNode\<close> whenever \<open>e\<close> parses.
\<close>

theorem reserved_names_checked_on_reassignment_v1_only:
  assumes "current_token p = Some t0" and "current_token (advance p) = Some t1"
  shows "(matches t0 KEYWORD ''var'' \<and> tok_type t1 = IDENTIFIER
          \<and> current_token (advance (advance p)) = Some t2 \<and> tok_type t2 = EQUALS
          \<and> expr (advance (advance (advance p))) = Inr (value_node, p') \<longrightarrow>
            expr_v1 expr comp_expr p = Inr (VarAssignNode t1 value_node, p')
            \<and> expr_v2 expr comp_expr call p = Inr (VarAssignNode t1 value_node, p'))
       \<and> (tok_type t0 = IDENTIFIER \<and> tok_type t1 = EQUALS
          \<and> tok_value t0 \<in> set CONSTANTS_keys \<longrightarrow>
            factor_v1 c1 expr factor p
              = Inl (InvalidSyntaxError ''Invalid variable name for assigment.''))
       \<and> (tok_type t0 = IDENTIFIER \<and> tok_type t1 = EQUALS
          \<and> expr (advance (advance p)) = Inr (value_node, p') \<longrightarrow>
            atom_v2 c2 expr dict p = Inr (VarModifyNode t0 value_node, p'))"
  using assms by (simp add: expr_v1_def expr_v2_def factor_v1_def atom_v2_def is_in_def)

theorem reserved_names_checked_on_reassignment_v1_only_witness:
  "\<forall>c1 c2.
     current_token (Parser_new var_none_tokens) = Some (Token KEYWORD ''var'')
   \<and> current_token (advance (Parser_new var_none_tokens)) = Some (Token IDENTIFIER ''none'')
   \<and> ''none'' \<in> set CONSTANTS_keys
   \<and> (\<exists>p'. expr_v1 (parse_expr_v1 c1 5) (parse_comp_expr_v1 c1 5) (Parser_new var_none_tokens)
          = Inr (VarAssignNode (Token IDENTIFIER ''none'') (NumberNode (Token NUMBER ''5'')), p'))
   \<and> (\<exists>p'. expr_v2 (parse_expr_v2 c2 5) (parse_atom_v2 c2 5) (parse_atom_v2 c2 5)
            (Parser_new var_none_tokens)
          = Inr (VarAssignNode (Token IDENTIFIER ''none'') (NumberNode (Token NUMBER ''5'')), p'))
   \<and> current_token (Parser_new none_assign_tokens) = Some (Token IDENTIFIER ''none'')
   \<and> current_token (advance (Parser_new none_assign_tokens)) = Some (Token EQUALS ''='')
   \<and> factor_v1 c1 (parse_expr_v1 c1 5) (parse_factor_v1 c1 5) (Parser_new none_assign_tokens)
        = Inl (InvalidSyntaxError ''Invalid variable name for assigment.'')
   \<and> (\<exists>p'. atom_v2 c2 (parse_expr_v2 c2 5) (dict_expr 5 (parse_expr_v2 c2 5))
            (Parser_new none_assign_tokens)
          = Inr (VarModifyNode (Token IDENTIFIER ''none'') (NumberNode (Token NUMBER ''5'')), p'))"
proof (intro allI)
  fix c1 :: compound_v1 and c2 :: compound_v2
  let ?pv = "Parser_new var_none_tokens" and ?pa = "Parser_new none_assign_tokens"
  have v0: "current_token ?pv = Some (Token KEYWORD ''var'')"
    and v1: "current_token (advance ?pv) = Some (Token IDENTIFIER ''none'')"
    and v2: "current_token (advance (advance ?pv)) = Some (Token EQUALS ''='')"
    and a0: "current_token ?pa = Some (Token IDENTIFIER ''none'')"
    and a1: "current_token (advance ?pa) = Some (Token EQUALS ''='')"
    by (simp_all add: var_none_tokens_def none_assign_tokens_def Parser_new_def set_token_def
        advance_def)
  have k: "''none'' \<in> set CONSTANTS_keys" by (simp add: CONSTANTS_keys_def)
  obtain q1 where e1: "parse_expr_v1 c1 5 (advance (advance (advance ?pv)))
      = Inr (NumberNode (Token NUMBER ''5''), q1)"
    by (simp add: var_none_tokens_def parser_defs eval_nat_numeral)
  obtain q2 where e2: "parse_expr_v2 c2 5 (advance (advance (advance ?pv)))
      = Inr (NumberNode (Token NUMBER ''5''), q2)"
    by (simp add: var_none_tokens_def parser_defs eval_nat_numeral)
  obtain q3 where e3: "parse_expr_v2 c2 5 (advance (advance ?pa))
      = Inr (NumberNode (Token NUMBER ''5''), q3)"
    by (simp add: none_assign_tokens_def parser_defs eval_nat_numeral)
  note T1 = reserved_names_checked_on_reassignment_v1_only [OF v0 v1,
      where expr = "parse_expr_v1 c1 5" and comp_expr = "parse_comp_expr_v1 c1 5"
        and ?t2.0 = "Token EQUALS ''=''" and value_node = "NumberNode (Token NUMBER ''5'')"
        and p' = q1]
  note T2 = reserved_names_checked_on_reassignment_v1_only [OF v0 v1,
      where expr = "parse_expr_v2 c2 5" and comp_expr = "parse_atom_v2 c2 5"
        and call = "parse_atom_v2 c2 5"
        and ?t2.0 = "Token EQUALS ''=''" and value_node = "NumberNode (Token NUMBER ''5'')"
        and p' = q2]
  note T3 = reserved_names_checked_on_reassignment_v1_only [OF a0 a1,
      where expr = "parse_expr_v1 c1 5" and factor = "parse_factor_v1 c1 5" and ?c1.0 = c1]
  note T4 = reserved_names_checked_on_reassignment_v1_only [OF a0 a1,
      where expr = "parse_expr_v2 c2 5" and dict = "dict_expr 5 (parse_expr_v2 c2 5)"
        and ?c2.0 = c2 and value_node = "NumberNode (Token NUMBER ''5'')" and p' = q3]
  from T1 v2 e1 have r1: "expr_v1 (parse_expr_v1 c1 5) (parse_comp_expr_v1 c1 5) ?pv
      = Inr (VarAssignNode (Token IDENTIFIER ''none'') (NumberNode (Token NUMBER ''5'')), q1)"
    by (simp add: matches_def)
  from T2 v2 e2 have r2: "expr_v2 (parse_expr_v2 c2 5) (parse_atom_v2 c2 5) (parse_atom_v2 c2 5) ?pv
      = Inr (VarAssignNode (Token IDENTIFIER ''none'') (NumberNode (Token NUMBER ''5'')), q2)"
    by (simp add: matches_def)
  from T3 k have r3: "factor_v1 c1 (parse_expr_v1 c1 5) (parse_factor_v1 c1 5) ?pa
      = Inl (InvalidSyntaxError ''Invalid variable name for assigment.'')"
    by simp
  from T4 e3 have r4: "atom_v2 c2 (parse_expr_v2 c2 5) (dict_expr 5 (parse_expr_v2 c2 5)) ?pa
      = Inr (VarModifyNode (Token IDENTIFIER ''none'') (NumberNode (Token NUMBER ''5'')), q3)"
    by simp
  from v0 v1 k a0 a1 r1 r2 r3 r4
  show "current_token ?pv = Some (Token KEYWORD ''var'')
   \<and> current_token (advance ?pv) = Some (Token IDENTIFIER ''none'')
   \<and> ''none'' \<in> set CONSTANTS_keys
   \<and> (\<exists>p'. expr_v1 (parse_expr_v1 c1 5) (parse_comp_expr_v1 c1 5) ?pv
          = Inr (VarAssignNode (Token IDENTIFIER ''none'') (NumberNode (Token NUMBER ''5'')), p'))
   \<and> (\<exists>p'. expr_v2 (parse_expr_v2 c2 5) (parse_atom_v2 c2 5) (parse_atom_v2 c2 5) ?pv
          = Inr (VarAssignNode (Token IDENTIFIER ''none'') (NumberNode (Token NUMBER ''5'')), p'))
   \<and> current_token ?pa = Some (Token IDENTIFIER ''none'')
   \<and> current_token (advance ?pa) = Some (Token EQUALS ''='')
   \<and> factor_v1 c1 (parse_expr_v1 c1 5) (parse_factor_v1 c1 5) ?pa
        = Inl (InvalidSyntaxError ''Invalid variable name for assigment.'')
   \<and> (\<exists>p'. atom_v2 c2 (parse_expr_v2 c2 5) (dict_expr 5 (parse_expr_v2 c2 5)) ?pa
          = Inr (VarModifyNode (Token IDENTIFIER ''none'') (NumberNode (Token NUMBER ''5'')), p'))"
    by simp
qed

text \<open>
  Claim C8: in a dictionary literal, \<open>read_element\<close> reads the key with \<open>expr\<close> and skips
  the newlines after it. When the key is a plain identifier (a \<open>VarAccessNode\<close>) and the
  next token is not a colon, the element pushed has as key the \<open>StringNode\<close> of the
  identifier's token and as value the \<open>VarAccessNode\<close> itself, and no token is consumed
  beyond the key; an identifier key followed by a colon, and a key that is neither a
  \<open>StringNode\<close> nor a \<open>VarAccessNode\<close>, are rejected with a syntax error. This holds for
  whatever expression parser \<open>expr\<close> is.
\<close>

theorem read_element_identifier_key:
  assumes "expr p = Inr (key, p1)" and "ignore_newlines p1 = Inr p2"
  shows "(\<forall>tok t. key = VarAccessNode tok \<and> current_token p2 = Some t \<and> tok_type t \<noteq> COLON \<longrightarrow>
            read_element expr elems p =
              Inr (elems @ [DictionnaryElementNode (StringNode tok None) (VarAccessNode tok)], p2))
       \<and> (\<forall>tok t. key = VarAccessNode tok \<and> current_token p2 = Some t \<and> tok_type t = COLON \<longrightarrow>
            read_element expr elems p =
              Inl (InvalidSyntaxError ''Expected a comma, or change the key to a string''))
       \<and> ((\<forall>s ac. key \<noteq> StringNode s ac) \<and> (\<forall>tok. key \<noteq> VarAccessNode tok) \<longrightarrow>
            read_element expr elems p =
              Inl (InvalidSyntaxError ''Expected a string or an identifier as key''))
       \<and> (\<exists>t. current_token p2 = Some t)"
proof -
  from assms(2) have "\<exists>t. current_token p2 = Some t" by (auto dest: ignore_newlines_Some)
  with assms show ?thesis by (cases key) (simp_all add: read_element_def)
qed

theorem read_element_identifier_key_witness:
  "\<forall>c. (\<exists>p2. parse_expr_v2 c 4 (advance (Parser_new dict_age_tokens))
              = Inr (VarAccessNode (Token IDENTIFIER ''age''), p2)
            \<and> ignore_newlines p2 = Inr p2
            \<and> current_token p2 = Some (Token RBRACK ''}'')
            \<and> read_element (parse_expr_v2 c 4) [] (advance (Parser_new dict_age_tokens))
                = Inr ([DictionnaryElementNode (StringNode (Token IDENTIFIER ''age'') None)
                          (VarAccessNode (Token IDENTIFIER ''age''))], p2))
      \<and> (\<exists>p2. parse_expr_v2 c 4 (advance (Parser_new dict_age_colon_tokens))
              = Inr (VarAccessNode (Token IDENTIFIER ''age''), p2)
            \<and> ignore_newlines p2 = Inr p2
            \<and> current_token p2 = Some (Token COLON '':'')
            \<and> read_element (parse_expr_v2 c 4) [] (advance (Parser_new dict_age_colon_tokens))
                = Inl (InvalidSyntaxError ''Expected a comma, or change the key to a string''))
      \<and> (\<exists>p2. parse_expr_v2 c 4 (advance (Parser_new dict_number_key_tokens))
              = Inr (NumberNode (Token NUMBER ''1''), p2)
            \<and> ignore_newlines p2 = Inr p2
            \<and> read_element (parse_expr_v2 c 4) [] (advance (Parser_new dict_number_key_tokens))
                = Inl (InvalidSyntaxError ''Expected a string or an identifier as key''))"
proof (intro allI conjI)
  fix c :: compound_v2
  let ?p = "advance (Parser_new dict_age_tokens)"
  obtain p2 where e: "parse_expr_v2 c 4 ?p = Inr (VarAccessNode (Token IDENTIFIER ''age''), p2)"
    and n: "ignore_newlines p2 = Inr p2" and t: "current_token p2 = Some (Token RBRACK ''}'')"
    by (simp add: dict_age_tokens_def parser_defs eval_nat_numeral skip_newlines.simps)
  from read_element_identifier_key [where expr = "parse_expr_v2 c 4" and p = ?p and elems = "[]",
      OF e n] t
  have "read_element (parse_expr_v2 c 4) [] ?p
      = Inr ([DictionnaryElementNode (StringNode (Token IDENTIFIER ''age'') None)
                (VarAccessNode (Token IDENTIFIER ''age''))], p2)"
    by simp
  with e n t show "\<exists>p2. parse_expr_v2 c 4 ?p = Inr (VarAccessNode (Token IDENTIFIER ''age''), p2)
            \<and> ignore_newlines p2 = Inr p2
            \<and> current_token p2 = Some (Token RBRACK ''}'')
            \<and> read_element (parse_expr_v2 c 4) [] ?p
                = Inr ([DictionnaryElementNode (StringNode (Token IDENTIFIER ''age'') None)
                          (VarAccessNode (Token IDENTIFIER ''age''))], p2)"
    by blast
next
  fix c :: compound_v2
  let ?p = "advance (Parser_new dict_age_colon_tokens)"
  obtain p2 where e: "parse_expr_v2 c 4 ?p = Inr (VarAccessNode (Token IDENTIFIER ''age''), p2)"
    and n: "ignore_newlines p2 = Inr p2" and t: "current_token p2 = Some (Token COLON '':'')"
    by (simp add: dict_age_colon_tokens_def parser_defs eval_nat_numeral skip_newlines.simps)
  from read_element_identifier_key [where expr = "parse_expr_v2 c 4" and p = ?p and elems = "[]",
      OF e n] t
  have "read_element (parse_expr_v2 c 4) [] ?p
      = Inl (InvalidSyntaxError ''Expected a comma, or change the key to a string'')"
    by simp
  with e n t show "\<exists>p2. parse_expr_v2 c 4 ?p = Inr (VarAccessNode (Token IDENTIFIER ''age''), p2)
            \<and> ignore_newlines p2 = Inr p2
            \<and> current_token p2 = Some (Token COLON '':'')
            \<and> read_element (parse_expr_v2 c 4) [] ?p
                = Inl (InvalidSyntaxError ''Expected a comma, or change the key to a string'')"
    by blast
next
  fix c :: compound_v2
  let ?p = "advance (Parser_new dict_number_key_tokens)"
  obtain p2 where e: "parse_expr_v2 c 4 ?p = Inr (NumberNode (Token NUMBER ''1''), p2)"
    and n: "ignore_newlines p2 = Inr p2"
    by (simp add: dict_number_key_tokens_def parser_defs eval_nat_numeral skip_newlines.simps)
  from read_element_identifier_key [where expr = "parse_expr_v2 c 4" and p = ?p and elems = "[]",
      OF e n]
  have "read_element (parse_expr_v2 c 4) [] ?p
      = Inl (InvalidSyntaxError ''Expected a string or an identifier as key'')"
    by simp
  with e n show "\<exists>p2. parse_expr_v2 c 4 ?p = Inr (NumberNode (Token NUMBER ''1''), p2)
            \<and> ignore_newlines p2 = Inr p2
            \<and> read_element (parse_expr_v2 c 4) [] ?p
                = Inl (InvalidSyntaxError ''Expected a string or an identifier as key'')"
    by blast
qed

section \<open>Properties of the operators\<close>






lemma is_equal_list_iff:
  "is_equal_list tn xs ys =
     (length xs = length ys \<and> (\<forall>i < length xs. is_equal tn (xs ! i) (ys ! i)))"
proof (induction xs arbitrary: ys)
  case Nil
  then show ?case by (cases ys) simp_all
next
  case (Cons x xs)
  then show ?case by (cases ys) (auto simp: nth_Cons split: nat.splits)
qed

lemma is_equal_entries_iff:
  "is_equal_entries tn d e = (\<forall>(k, v) \<in> set d. \<exists>w. map_of e k = Some w \<and> is_equal tn v w)"
  by (induction d) (auto split: option.splits)

lemma equals_values_1: "(equals_values tn l r = NumberValue 1) = is_equal tn l r"
  by (simp add: equals_values_def)

text \<open>
  Claim C1, as stated: \<open>x + None\<close> and \<open>None + x\<close> return \<open>x\<close> unchanged for every
  \<open>x\<close> that is not a Dictionary, in particular for a List. It fails for the List: both
  \<open>[0] + none\<close> and \<open>none + [0]\<close> are the two-element list \<open>[0, none]\<close>, as the tests
  assert (part\_003, lines 298 to 311), whatever the string conversion is.
\<close>

theorem add_values_List_None_appends:
  "\<forall>str. add_values str (ListValue [NumberValue 0]) NoneValue
            = Inr (ListValue [NumberValue 0, NoneValue])
        \<and> add_values str NoneValue (ListValue [NumberValue 0])
            = Inr (ListValue [NumberValue 0, NoneValue])
        \<and> add_values str (ListValue [NumberValue 0]) NoneValue \<noteq> Inr (ListValue [NumberValue 0])
        \<and> add_values str NoneValue (ListValue [NumberValue 0]) \<noteq> Inr (ListValue [NumberValue 0])"
  by simp

text \<open>
  Claim C1, amended: None is a two-sided identity for addition: for every runtime value
  \<open>x\<close> that is neither a Dictionary nor a List (nor None itself) and for which \<open>+\<close>
  does not raise an error, \<open>x + None\<close> returns \<open>x\<close> unchanged and \<open>None + x\<close> returns
  \<open>x\<close> unchanged; for a Number and for a String \<open>+\<close> raises no error and so returns
  it unchanged; and \<open>None + None\<close> returns the Number 0. When \<open>x\<close> is a List,
  \<open>x + None\<close> and \<open>None + x\<close> both return \<open>x\<close> with None appended as a new last
  element.
\<close>

theorem add_values_None_identity:
  "((\<forall>xs. x \<noteq> ListValue xs) \<and> (\<forall>d. x \<noteq> DictionnaryValue d) \<and> x \<noteq> NoneValue \<longrightarrow>
      (\<forall>y. add_values str x NoneValue = Inr y \<longrightarrow> y = x)
      \<and> (\<forall>y. add_values str NoneValue x = Inr y \<longrightarrow> y = x))
   \<and> add_values str (NumberValue a) NoneValue = Inr (NumberValue a)
   \<and> add_values str NoneValue (NumberValue a) = Inr (NumberValue a)
   \<and> add_values str (StringValue s) NoneValue = Inr (StringValue s)
   \<and> add_values str NoneValue (StringValue s) = Inr (StringValue s)
   \<and> add_values str NoneValue NoneValue = Inr (NumberValue 0)
   \<and> add_values str (ListValue l) NoneValue = Inr (ListValue (l @ [NoneValue]))
   \<and> add_values str NoneValue (ListValue l) = Inr (ListValue (l @ [NoneValue]))"
  by (cases x) auto

theorem add_values_None_identity_witness:
  "(\<forall>xs. NumberValue 2 \<noteq> ListValue xs) \<and> (\<forall>d. NumberValue 2 \<noteq> DictionnaryValue d)
   \<and> NumberValue 2 \<noteq> NoneValue
   \<and> add_values (\<lambda>v. ''2'') (NumberValue 2) NoneValue = Inr (NumberValue 2)
   \<and> add_values (\<lambda>v. ''2'') NoneValue (NumberValue 2) = Inr (NumberValue 2)
   \<and> add_values (\<lambda>v. ''2'') (StringValue ''string'') NoneValue = Inr (StringValue ''string'')
   \<and> add_values (\<lambda>v. ''2'') NoneValue (StringValue ''string'') = Inr (StringValue ''string'')"
  using add_values_None_identity [of "NumberValue 2" "\<lambda>v. ''2''" 2 "''string''" "[]"]
  by simp

text \<open>
  Claim C2, as stated: for every String \<open>s\<close> and every value \<open>v\<close>, \<open>s + v\<close> is the String
  that concatenates the string conversions, in particular \<open>s + l\<close> is a String for a
  List \<open>l\<close>. It fails for the List: \<open>"string" + [0]\<close> is the list \<open>[0, "string"]\<close>, as
  the tests assert (part\_003, lines 150 to 155), whatever the string conversion is.
\<close>

theorem add_values_String_List_is_a_List:
  "\<forall>str. add_values str (StringValue ''string'') (ListValue [NumberValue 0])
            = Inr (ListValue [NumberValue 0, StringValue ''string''])
        \<and> (\<forall>t. add_values str (StringValue ''string'') (ListValue [NumberValue 0])
                 \<noteq> Inr (StringValue t))"
  by simp

text \<open>
  Claim C2, amended: for every String \<open>s\<close> and every value \<open>v\<close> that is neither a List
  nor None, \<open>s + v\<close> is the String that concatenates \<open>s\<close> and the string conversion of
  \<open>v\<close>; \<open>s + None\<close> is \<open>s\<close>; and for every List \<open>l\<close>, \<open>s + l\<close> is a List, \<open>l\<close> with
  \<open>s\<close> appended as its last element.
\<close>

theorem add_values_String:
  "((\<forall>l. v \<noteq> ListValue l) \<and> v \<noteq> NoneValue \<longrightarrow>
      add_values str (StringValue s) v = Inr (StringValue (s @ to_str str v)))
   \<and> add_values str (StringValue s) NoneValue = Inr (StringValue s)
   \<and> add_values str (StringValue s) (ListValue l) = Inr (ListValue (l @ [StringValue s]))"
  by (cases v) simp_all

theorem add_values_String_witness:
  "(\<forall>l. NumberValue 2 \<noteq> ListValue l) \<and> NumberValue 2 \<noteq> NoneValue
   \<and> add_values (\<lambda>v. ''2'') (StringValue ''string'') (NumberValue 2) = Inr (StringValue ''string2'')
   \<and> add_values (\<lambda>v. ''2'') (StringValue ''string'') (StringValue ''string'')
       = Inr (StringValue ''stringstring'')"
  using add_values_String [of "NumberValue 2" "\<lambda>v. ''2''" "''string''" "[]"]
    add_values_String [of "StringValue ''string''" "\<lambda>v. ''2''" "''string''" "[]"]
  by (simp add: to_str_def)

text \<open>
  Claim C5 is left open. What the specification and the tests settle: division and modulo
  by None or by the Number zero fail with the kind DivisionByZero, whatever Number or None
  the left operand is, and they return a value for two Numbers only. For None divided by a
  Number other than zero they fix a RuntimeError, not its kind: the claim holds exactly
  when that kind is DivisionByZero.
\<close>

lemma division_by_None_or_zero:
  "divide_values k (NumberValue a) NoneValue = Inl (RuntimeError DivisionByZero)
   \<and> divide_values k NoneValue NoneValue = Inl (RuntimeError DivisionByZero)
   \<and> divide_values k (NumberValue a) (NumberValue 0) = Inl (RuntimeError DivisionByZero)
   \<and> divide_values k NoneValue (NumberValue 0) = Inl (RuntimeError DivisionByZero)
   \<and> modulo_values k (NumberValue a) NoneValue = Inl (RuntimeError DivisionByZero)
   \<and> modulo_values k NoneValue NoneValue = Inl (RuntimeError DivisionByZero)
   \<and> modulo_values k (NumberValue a) (NumberValue 0) = Inl (RuntimeError DivisionByZero)
   \<and> modulo_values k NoneValue (NumberValue 0) = Inl (RuntimeError DivisionByZero)"
  by (simp add: divide_values_def modulo_values_def)

lemma division_of_None:
  "a \<noteq> 0 \<Longrightarrow> divide_values k NoneValue (NumberValue a) = Inl (RuntimeError k)
            \<and> modulo_values k NoneValue (NumberValue a) = Inl (RuntimeError k)"
  by (simp add: divide_values_def modulo_values_def)

lemma divide_with_succeeds:
  "divide_with f k l r = Inr v \<Longrightarrow> \<exists>a b. l = NumberValue a \<and> r = NumberValue b \<and> b \<noteq> 0"
  by (cases "(f, k, l, r)" rule: divide_with.cases) (auto split: if_splits)



text \<open>
  Claim C7: \<open>==\<close> returns the Number 1 for true and the Number 0 for false. With a
  conversion that turns the String \<open>"5"\<close> into the Number 5, \<open>"5" == 5\<close> and
  \<open>5 == "5"\<close> return 1, and in general a String that converts to a Number compares as
  that Number; \<open>"str" == None\<close> returns 0; \<open>None == None\<close>, \<open>None == 0\<close> and
  \<open>0 == None\<close> return 1; two Lists are equal when they have the same length and equal
  elements at every index, and two Dictionaries when they have the same keys and equal
  values under every key.
\<close>

theorem equals_values_semantics:
  assumes "to_number ''5'' = Some 5"
  shows "equals_values to_number (StringValue ''5'') (NumberValue 5) = NumberValue 1
       \<and> equals_values to_number (NumberValue 5) (StringValue ''5'') = NumberValue 1
       \<and> (\<forall>s a b. to_number s = Some a \<longrightarrow>
            equals_values to_number (StringValue s) (NumberValue b)
              = NumberValue (if a = b then 1 else 0)
            \<and> equals_values to_number (NumberValue b) (StringValue s)
              = NumberValue (if b = a then 1 else 0))
       \<and> equals_values to_number (StringValue ''str'') NoneValue = NumberValue 0
       \<and> equals_values to_number NoneValue NoneValue = NumberValue 1
       \<and> equals_values to_number NoneValue (NumberValue 0) = NumberValue 1
       \<and> equals_values to_number (NumberValue 0) NoneValue = NumberValue 1
       \<and> (equals_values to_number l r = NumberValue 1 \<or> equals_values to_number l r = NumberValue 0)
       \<and> ((equals_values to_number (ListValue xs) (ListValue ys) = NumberValue 1)
            = (length xs = length ys
               \<and> (\<forall>i < length xs. equals_values to_number (xs ! i) (ys ! i) = NumberValue 1)))
       \<and> ((equals_values to_number (DictionnaryValue d) (DictionnaryValue e) = NumberValue 1)
            = (set (map fst d) = set (map fst e)
               \<and> (\<forall>(k, v) \<in> set d. \<exists>w. map_of e k = Some w
                     \<and> equals_values to_number v w = NumberValue 1)))"
proof -
  have "(equals_values to_number (ListValue xs) (ListValue ys) = NumberValue 1)
            = (length xs = length ys
               \<and> (\<forall>i < length xs. equals_values to_number (xs ! i) (ys ! i) = NumberValue 1))"
    by (simp add: equals_values_1 is_equal_list_iff)
  moreover have "(equals_values to_number (DictionnaryValue d) (DictionnaryValue e) = NumberValue 1)
            = (set (map fst d) = set (map fst e)
               \<and> (\<forall>(k, v) \<in> set d. \<exists>w. map_of e k = Some w
                     \<and> equals_values to_number v w = NumberValue 1))"
    by (simp add: equals_values_1 is_equal_entries_iff)
  moreover have "\<forall>s a b. to_number s = Some a \<longrightarrow>
            equals_values to_number (StringValue s) (NumberValue b)
              = NumberValue (if a = b then 1 else 0)
            \<and> equals_values to_number (NumberValue b) (StringValue s)
              = NumberValue (if b = a then 1 else 0)"
    by (simp add: equals_values_def)
  moreover have "equals_values to_number l r = NumberValue 1
      \<or> equals_values to_number l r = NumberValue 0"
    by (simp add: equals_values_def)
  ultimately show ?thesis using assms by (simp add: equals_values_def)
qed

theorem equals_values_semantics_witness:
  "five_only ''5'' = Some 5
   \<and> equals_values five_only (StringValue ''5'') (NumberValue 5) = NumberValue 1
   \<and> equals_values five_only (NumberValue 5) (StringValue ''5'') = NumberValue 1
   \<and> equals_values five_only (StringValue ''5'') (NumberValue 6) = NumberValue 0
   \<and> equals_values five_only (StringValue ''str'') NoneValue = NumberValue 0
   \<and> equals_values five_only (ListValue [NumberValue 5, NumberValue 6])
        (ListValue [NumberValue 5, NumberValue 6]) = NumberValue 1
   \<and> equals_values five_only (DictionnaryValue [(''age'', NumberValue 17)])
        (DictionnaryValue [(''age'', NumberValue 17)]) = NumberValue 1"
proof -
  have h: "five_only ''5'' = Some 5" by (simp add: five_only_def)
  note T = equals_values_semantics [where to_number = five_only, OF h]
  have n: "equals_values five_only (NumberValue 5) (NumberValue 5) = NumberValue 1"
    "equals_values five_only (NumberValue 6) (NumberValue 6) = NumberValue 1"
    "equals_values five_only (NumberValue 17) (NumberValue 17) = NumberValue 1"
    by (simp_all add: equals_values_def)
  from T [where xs = "[NumberValue 5, NumberValue 6]" and ys = "[NumberValue 5, NumberValue 6]"] n
  have l: "equals_values five_only (ListValue [NumberValue 5, NumberValue 6])
        (ListValue [NumberValue 5, NumberValue 6]) = NumberValue 1"
    by (simp add: less_Suc_eq nth_Cons split: nat.splits)
  from T [where d = "[(''age'', NumberValue 17)]" and e = "[(''age'', NumberValue 17)]"] n
  have d: "equals_values five_only (DictionnaryValue [(''age'', NumberValue 17)])
        (DictionnaryValue [(''age'', NumberValue 17)]) = NumberValue 1"
    by simp
  from T h have "equals_values five_only (StringValue ''5'') (NumberValue 6) = NumberValue 0"
    by simp
  with T l d h show ?thesis by simp
qed

text \<open>
  Claim C10: under multiplication None behaves as the Number zero, not as a neutral
  element: for every Number \<open>x\<close>, \<open>x * None\<close>, \<open>None * x\<close> and \<open>None * None\<close> are the
  Number 0, and \<open>x * None\<close> is \<open>x\<close> for no other Number than zero.
\<close>

theorem multiply_values_None_is_zero:
  "multiply_values (NumberValue x) NoneValue = Inr (NumberValue 0)
   \<and> multiply_values NoneValue (NumberValue x) = Inr (NumberValue 0)
   \<and> multiply_values NoneValue NoneValue = Inr (NumberValue 0)
   \<and> (multiply_values (NumberValue x) NoneValue = Inr (NumberValue x)) = (x = 0)
   \<and> (multiply_values NoneValue (NumberValue x) = Inr (NumberValue x)) = (x = 0)"
  by (auto simp add: multiply_values_def none_as_zero_def)

end
